theory Spec2Isabelle
  imports Complex_Main
begin

section \<open>JavaScript numbers, without rounding\<close>

text \<open>
  The engine computes with JavaScript numbers. They are modelled as exact reals extended
  by the three special values of the language, so that a division by zero or a fractional
  power of a negative base is the value the program really carries on with, and not the
  value HOL assigns to \<open>x / 0\<close>. Rounding to binary64, overflow and the sign of zero
  are not modelled: a zero divisor counts as \<open>+0\<close>. What a caller passes in (amounts,
  rates, the configuration) is a real number and the number of years an integer; a
  parameter the caller leaves out is \<open>None\<close>.
\<close>

datatype jsnum = Fin real | PosInf | NegInf | NaN

fun js_neg :: "jsnum \<Rightarrow> jsnum" where
  "js_neg (Fin a) = Fin (- a)"
| "js_neg PosInf = NegInf"
| "js_neg NegInf = PosInf"
| "js_neg NaN = NaN"

fun js_add :: "jsnum \<Rightarrow> jsnum \<Rightarrow> jsnum" where
  "js_add NaN _ = NaN"
| "js_add _ NaN = NaN"
| "js_add (Fin a) (Fin b) = Fin (a + b)"
| "js_add PosInf NegInf = NaN"
| "js_add NegInf PosInf = NaN"
| "js_add PosInf _ = PosInf"
| "js_add _ PosInf = PosInf"
| "js_add NegInf _ = NegInf"
| "js_add _ NegInf = NegInf"

definition js_sub :: "jsnum \<Rightarrow> jsnum \<Rightarrow> jsnum" where
  "js_sub a b = js_add a (js_neg b)"

text \<open>Infinity times a finite factor: the sign of the factor decides, and zero gives NaN.\<close>

definition inf_times :: "bool \<Rightarrow> real \<Rightarrow> jsnum" where
  "inf_times positive b =
     (if b = 0 then NaN else if (0 < b) = positive then PosInf else NegInf)"

fun js_mul :: "jsnum \<Rightarrow> jsnum \<Rightarrow> jsnum" where
  "js_mul NaN _ = NaN"
| "js_mul _ NaN = NaN"
| "js_mul (Fin a) (Fin b) = Fin (a * b)"
| "js_mul PosInf (Fin b) = inf_times True b"
| "js_mul NegInf (Fin b) = inf_times False b"
| "js_mul (Fin a) PosInf = inf_times True a"
| "js_mul (Fin a) NegInf = inf_times False a"
| "js_mul PosInf PosInf = PosInf"
| "js_mul NegInf NegInf = PosInf"
| "js_mul PosInf NegInf = NegInf"
| "js_mul NegInf PosInf = NegInf"

fun js_div :: "jsnum \<Rightarrow> jsnum \<Rightarrow> jsnum" where
  "js_div NaN _ = NaN"
| "js_div _ NaN = NaN"
| "js_div (Fin a) (Fin b) =
     (if b \<noteq> 0 then Fin (a / b)
      else if a = 0 then NaN else if 0 < a then PosInf else NegInf)"
| "js_div (Fin a) PosInf = Fin 0"
| "js_div (Fin a) NegInf = Fin 0"
| "js_div PosInf (Fin b) = (if 0 \<le> b then PosInf else NegInf)"
| "js_div NegInf (Fin b) = (if 0 \<le> b then NegInf else PosInf)"
| "js_div PosInf PosInf = NaN"
| "js_div PosInf NegInf = NaN"
| "js_div NegInf PosInf = NaN"
| "js_div NegInf NegInf = NaN"

text \<open>The relational operators: every comparison with NaN is false.\<close>

fun js_lt :: "jsnum \<Rightarrow> jsnum \<Rightarrow> bool" where
  "js_lt NaN _ = False"
| "js_lt _ NaN = False"
| "js_lt (Fin a) (Fin b) = (a < b)"
| "js_lt PosInf _ = False"
| "js_lt _ PosInf = True"
| "js_lt _ NegInf = False"
| "js_lt NegInf _ = True"

definition js_gt :: "jsnum \<Rightarrow> jsnum \<Rightarrow> bool" where
  "js_gt a b = js_lt b a"

definition js_le :: "jsnum \<Rightarrow> jsnum \<Rightarrow> bool" where
  "js_le a b = (a \<noteq> NaN \<and> b \<noteq> NaN \<and> (a = b \<or> js_lt a b))"

definition js_ge :: "jsnum \<Rightarrow> jsnum \<Rightarrow> bool" where
  "js_ge a b = js_le b a"

text \<open>
  \<open>Math.pow\<close>, case by case as the language defines it: an exponent of zero gives 1
  whatever the base, a negative finite base under a non-integral exponent gives NaN.
\<close>

definition odd_integer :: "real \<Rightarrow> bool" where
  "odd_integer e = (e \<in> \<int> \<and> odd \<lfloor>e\<rfloor>)"

fun Math_pow :: "jsnum \<Rightarrow> jsnum \<Rightarrow> jsnum" where
  "Math_pow _ NaN = NaN"
| "Math_pow NaN (Fin e) = (if e = 0 then Fin 1 else NaN)"
| "Math_pow NaN _ = NaN"
| "Math_pow (Fin a) PosInf =
     (if 1 < \<bar>a\<bar> then PosInf else if \<bar>a\<bar> = 1 then NaN else Fin 0)"
| "Math_pow (Fin a) NegInf =
     (if 1 < \<bar>a\<bar> then Fin 0 else if \<bar>a\<bar> = 1 then NaN else PosInf)"
| "Math_pow _ PosInf = PosInf"
| "Math_pow _ NegInf = Fin 0"
| "Math_pow PosInf (Fin e) = (if e = 0 then Fin 1 else if 0 < e then PosInf else Fin 0)"
| "Math_pow NegInf (Fin e) =
     (if e = 0 then Fin 1
      else if 0 < e then (if odd_integer e then NegInf else PosInf)
      else Fin 0)"
| "Math_pow (Fin a) (Fin e) =
     (if e = 0 then Fin 1
      else if a = 0 then (if 0 < e then Fin 0 else PosInf)
      else if e \<in> \<int> then Fin (a powi \<lfloor>e\<rfloor>)
      else if a < 0 then NaN
      else Fin (a powr e))"

section \<open>Numbers to strings and back\<close>

text \<open>
  \<open>Number::toString\<close> prints the shortest decimal that reads back as the same
  binary64 value, which has no counterpart over exact reals. For a finite number it is
  therefore a parameter \<open>nts\<close> of every operation that prints one; the three special
  values print as the language says.
\<close>

fun Number_toString :: "(real \<Rightarrow> string) \<Rightarrow> jsnum \<Rightarrow> string" where
  "Number_toString nts (Fin x) = nts x"
| "Number_toString nts PosInf = ''Infinity''"
| "Number_toString nts NegInf = ''-Infinity''"
| "Number_toString nts NaN = ''NaN''"

definition digit_char :: "nat \<Rightarrow> char" where
  "digit_char d = ''0123456789'' ! d"

fun decimal :: "nat \<Rightarrow> string" where
  "decimal n = (if n < 10 then [digit_char n] else decimal (n div 10) @ [digit_char (n mod 10)])"

declare decimal.simps [simp del]

text \<open>
  \<open>Number.prototype.toFixed\<close>: the sign is split off, a magnitude of at least
  \<open>10^21\<close> is printed by \<open>Number::toString\<close>, and any other magnitude is rounded
  to the nearest multiple of \<open>10^-f\<close>, the larger one on a tie, and printed with
  exactly \<open>f\<close> digits after the point.
\<close>

definition fixed_digits :: "nat \<Rightarrow> nat \<Rightarrow> string" where
  "fixed_digits f n =
     (let m = decimal n in
      if f = 0 then m
      else
        let m' = (if length m \<le> f then replicate (f + 1 - length m) (CHR ''0'') @ m else m);
            k = length m'
        in take (k - f) m' @ ''.'' @ drop (k - f) m')"

fun toFixed :: "(real \<Rightarrow> string) \<Rightarrow> nat \<Rightarrow> jsnum \<Rightarrow> string" where
  "toFixed nts f (Fin x) =
     (let s = (if x < 0 then ''-'' else '''');
          y = \<bar>x\<bar>
      in if 10 ^ 21 \<le> y then s @ nts y
         else s @ fixed_digits f (nat \<lfloor>y * 10 ^ f + 1 / 2\<rfloor>))"
| "toFixed nts f v = Number_toString nts v"

text \<open>
  \<open>parseFloat\<close>: leading white space is skipped, then the longest prefix that is a
  decimal literal is read (a sign, then \<open>Infinity\<close> or digits with an optional
  fraction and an optional exponent); whatever follows is ignored, and without such a
  prefix the result is NaN.
\<close>

definition isDigit :: "char \<Rightarrow> bool" where
  "isDigit c = (c \<in> set ''0123456789'')"

definition isWhite :: "char \<Rightarrow> bool" where
  "isWhite c = (c \<in> {CHR '' '', CHR 0x09, CHR 0x0A, CHR 0x0B, CHR 0x0C, CHR 0x0D})"

definition digit_val :: "char \<Rightarrow> nat" where
  "digit_val c = of_char c - 48"

definition digits_val :: "string \<Rightarrow> nat" where
  "digits_val ds = foldl (\<lambda>a c. 10 * a + digit_val c) 0 ds"

definition split_sign :: "string \<Rightarrow> bool \<times> string" where
  "split_sign s =
     (case s of
        [] \<Rightarrow> (False, s)
      | c # r \<Rightarrow> if c = CHR ''-'' then (True, r) else if c = CHR ''+'' then (False, r)
                 else (False, s))"

definition exponent_part :: "string \<Rightarrow> int" where
  "exponent_part s =
     (case s of
        [] \<Rightarrow> 0
      | c # r \<Rightarrow>
          if c = CHR ''e'' \<or> c = CHR ''E'' then
            (let (neg, ds) = split_sign r; e = takeWhile isDigit ds
             in if e = [] then 0 else if neg then - int (digits_val e) else int (digits_val e))
          else 0)"

definition parseFloat :: "string \<Rightarrow> jsnum" where
  "parseFloat s =
     (let (neg, u) = split_sign (dropWhile isWhite s) in
      if take 8 u = ''Infinity'' then (if neg then NegInf else PosInf)
      else
        let ip = takeWhile isDigit u;
            r1 = dropWhile isDigit u;
            (fp, r2) = (case r1 of
                          [] \<Rightarrow> ([], r1)
                        | c # r \<Rightarrow> if c = CHR ''.'' then (takeWhile isDigit r, dropWhile isDigit r)
                                   else ([], r1))
        in if ip = [] \<and> fp = [] then NaN
           else
             let m = real (digits_val ip) + real (digits_val fp) / 10 ^ length fp;
                 v = m * 10 powi exponent_part r2
             in Fin (if neg then - v else v))"

section \<open>The engine: configuration, ledger and liquidity pool\<close>

record config =
  projectName :: string
  location :: string
  phiRatio :: real
  discountRate :: real

record cashFlow =
  year :: int
  amount :: jsnum

record engine =
  config :: config
  cashFlows :: "cashFlow list"
  liquidityPool :: real

text \<open>
  The constructor merges the caller's overrides onto the defaults and starts with an empty
  ledger and a liquidity pool of 0. A field the caller leaves out is \<open>None\<close>.
\<close>

record configOverrides =
  with_projectName :: "string option"
  with_location :: "string option"
  with_phiRatio :: "real option"
  with_discountRate :: "real option"

definition orDefault :: "'a option \<Rightarrow> 'a \<Rightarrow> 'a" where
  "orDefault v d = (case v of None \<Rightarrow> d | Some x \<Rightarrow> x)"

definition RussellDCFFramework :: "configOverrides \<Rightarrow> engine" where
  "RussellDCFFramework c =
     \<lparr>config =
        \<lparr>projectName = orDefault (with_projectName c) ''Tokyo Expansion - Shinjuku Tower'',
         location = orDefault (with_location c) ''Shinjuku, Tokyo'',
         phiRatio = orDefault (with_phiRatio c) 1.618033988749895,
         discountRate = orDefault (with_discountRate c) 0.08\<rparr>,
      cashFlows = [],
      liquidityPool = 0\<rparr>"

definition noOverrides :: configOverrides where
  "noOverrides =
     \<lparr>with_projectName = None, with_location = None, with_phiRatio = None,
      with_discountRate = None\<rparr>"

datatype error = Error string

section \<open>calculateYieldProjection\<close>

record projectionParams =
  initialInvestment :: "real option"
  years :: "int option"
  growthRate :: "real option"
  occupancyRate :: "real option"

record yearlyProjection =
  year :: int
  baseYield :: jsnum
  adjustedYield :: jsnum
  phiAdjustedYield :: jsnum
  cumulativeYield :: jsnum
  occupancyRate :: real

record yieldProjectionResult =
  projectName :: string
  initialInvestment :: real
  projectionPeriod :: int
  yearlyProjections :: "yearlyProjection list"
  totalProjectedYield :: jsnum
  averageAnnualYield :: jsnum
  timestamp :: string

text \<open>
  The body of the \<open>for\<close> loop, from the value \<open>y\<close> of the counter on: the running
  total, the rows pushed so far and the engine, whose ledger receives one record per year.
\<close>

function yieldLoop ::
  "real \<Rightarrow> real \<Rightarrow> real \<Rightarrow> int \<Rightarrow> int \<Rightarrow> jsnum \<times> yearlyProjection list \<times> engine
     \<Rightarrow> jsnum \<times> yearlyProjection list \<times> engine" where
  "yieldLoop invest g occ n y (cum, rows, this) =
     (if y \<le> n then
        let baseYield' = js_mul (Fin invest) (Math_pow (js_add (Fin 1) (Fin g)) (Fin (of_int y)));
            adjustedYield' = js_mul baseYield' (Fin occ);
            phiAdjustedYield' =
              js_mul adjustedYield'
                (js_add (Fin 1)
                   (js_mul (js_sub (js_div (Fin 1) (Fin (phiRatio (config this)))) (Fin 1))
                      (Fin 0.1)));
            cum' = js_add cum phiAdjustedYield'
        in yieldLoop invest g occ n (y + 1)
             (cum',
              rows @ [\<lparr>year = y, baseYield = baseYield', adjustedYield = adjustedYield',
                       phiAdjustedYield = phiAdjustedYield', cumulativeYield = cum',
                       occupancyRate = occ\<rparr>],
              this\<lparr>cashFlows := cashFlows this @ [\<lparr>cashFlow.year = y, amount = phiAdjustedYield'\<rparr>]\<rparr>)
      else (cum, rows, this))"
  by pat_completeness auto
termination
  by (relation "measure (\<lambda>(invest, g, occ, n, y, s). nat (n + 1 - y))") auto

declare yieldLoop.simps [simp del]

text \<open>\<open>now\<close> is the reading of the wall clock when the result object is built.\<close>

definition calculateYieldProjection ::
  "engine \<Rightarrow> projectionParams \<Rightarrow> string \<Rightarrow> yieldProjectionResult \<times> engine" where
  "calculateYieldProjection this p now =
     (let invest = orDefault (projectionParams.initialInvestment p) 50000000;
          n = orDefault (years p) 10;
          g = orDefault (growthRate p) 0.12;
          occ = orDefault (projectionParams.occupancyRate p) 0.92;
          (cum, rows, this') = yieldLoop invest g occ n 1 (Fin 0, [], this)
      in (\<lparr>projectName = config.projectName (config this),
           initialInvestment = invest,
           projectionPeriod = n,
           yearlyProjections = rows,
           totalProjectedYield = cum,
           averageAnnualYield = js_div cum (Fin (of_int n)),
           timestamp = now\<rparr>,
          this'))"

section \<open>calculatePhiHedgedIRR\<close>

record riskMetrics =
  sharpeRatio :: string
  sortinoRatio :: string
  volatility :: string
  downsideDeviation :: string

record irrAnalysisResult =
  baseIRR :: string
  phiHedgedIRR :: string
  phiRatio :: real
  hedgeFactor :: jsnum
  riskMetrics :: riskMetrics
  recommendation :: string
  timestamp :: string

text \<open>
  The local constants of the method, as functions of the engine and the argument. The
  average cash flow, which the method computes and never uses, is left out.
\<close>

definition irr_totalCashFlow :: "engine \<Rightarrow> jsnum" where
  "irr_totalCashFlow this = foldl (\<lambda>sum cf. js_add sum (amount cf)) (Fin 0) (cashFlows this)"

definition irr_baseIRR :: "engine \<Rightarrow> real \<Rightarrow> jsnum" where
  "irr_baseIRR this invest =
     js_sub
       (Math_pow (js_div (irr_totalCashFlow this) (Fin invest))
          (js_div (Fin 1) (Fin (real (length (cashFlows this))))))
       (Fin 1)"

definition irr_phiHedgeFactor :: "engine \<Rightarrow> jsnum" where
  "irr_phiHedgeFactor this = js_div (Fin 1) (Fin (config.phiRatio (config this)))"

definition irr_phiHedgedIRR :: "engine \<Rightarrow> real \<Rightarrow> jsnum" where
  "irr_phiHedgedIRR this invest =
     js_mul (irr_baseIRR this invest)
       (js_add (Fin 1) (js_mul (irr_phiHedgeFactor this) (Fin 0.15)))"

definition calculatePhiHedgedIRR ::
  "(real \<Rightarrow> string) \<Rightarrow> engine \<Rightarrow> real \<Rightarrow> string \<Rightarrow> error + irrAnalysisResult" where
  "calculatePhiHedgedIRR nts this invest now =
     (if length (cashFlows this) = 0 then
        Inl (Error ''No cash flows available. Run calculateYieldProjection first.'')
      else
        let baseIRR' = irr_baseIRR this invest;
            phiHedgeFactor = irr_phiHedgeFactor this;
            phiHedgedIRR' = irr_phiHedgedIRR this invest;
            sharpeRatio' = js_div phiHedgedIRR' (Fin 0.15);
            sortinoRatio' = js_div phiHedgedIRR' (Fin 0.10)
        in Inr
             \<lparr>baseIRR = toFixed nts 2 (js_mul baseIRR' (Fin 100)) @ ''%'',
              phiHedgedIRR = toFixed nts 2 (js_mul phiHedgedIRR' (Fin 100)) @ ''%'',
              phiRatio = config.phiRatio (config this),
              hedgeFactor = phiHedgeFactor,
              riskMetrics =
                \<lparr>sharpeRatio = toFixed nts 2 sharpeRatio',
                 sortinoRatio = toFixed nts 2 sortinoRatio',
                 volatility = ''15%'',
                 downsideDeviation = ''10%''\<rparr>,
              recommendation =
                (if js_gt phiHedgedIRR' (Fin 0.12) then ''Strong Buy''
                 else if js_gt phiHedgedIRR' (Fin 0.08) then ''Buy'' else ''Hold''),
              timestamp = now\<rparr>)"

section \<open>validateLiquidityMechanisms\<close>

record liquidityParams =
  totalAssetValue :: "real option"
  currentLiquidity :: "real option"
  requiredLiquidityRatio :: "real option"
  emergencyReserveRatio :: "real option"

record validationChecks =
  sufficientLiquidity :: bool
  emergencyReserveMet :: bool
  optimalRatio :: bool
  phiAligned :: bool

record liquidityValidationResult =
  totalAssetValue :: real
  currentLiquidity :: real
  requiredLiquidity :: jsnum
  emergencyReserve :: jsnum
  actualLiquidityRatio :: string
  phiLiquidityScore :: string
  validations :: validationChecks
  status :: string
  recommendations :: "string list"
  timestamp :: string

definition msg_affirmative :: string where
  "msg_affirmative = ''All liquidity mechanisms validated - maintain current strategy''"

text \<open>
  Each \<open>push\<close> of the method appends to the list built so far; the affirmative message
  is pushed when the list is still empty after the four checks.
\<close>

definition generateLiquidityRecommendations ::
  "(real \<Rightarrow> string) \<Rightarrow> validationChecks \<Rightarrow> jsnum \<Rightarrow> jsnum \<Rightarrow> string list" where
  "generateLiquidityRecommendations nts v current required =
     (let r1 = (if \<not> sufficientLiquidity v then
                  (let deficit = js_sub required current
                   in [''Increase liquidity by $'' @ toFixed nts 2 (js_div deficit (Fin 1000000))
                         @ ''M to meet requirements''])
                else []);
          r2 = r1 @ (if \<not> emergencyReserveMet v then
                       [''Build emergency reserve to minimum 5% of total asset value'']
                     else []);
          r3 = r2 @ (if \<not> optimalRatio v then
                       (if js_lt (js_div current required) (Fin 1) then
                          [''Liquidity below optimal range - consider asset liquidation or capital raise'']
                        else
                          [''Liquidity above optimal range - consider redeployment for higher returns''])
                     else []);
          r4 = r3 @ (if \<not> phiAligned v then
                       [''Adjust liquidity to align with Phi-hedged optimal ratio for risk balance'']
                     else [])
      in if length r4 = 0 then r4 @ [msg_affirmative] else r4)"

definition validateLiquidityMechanisms ::
  "(real \<Rightarrow> string) \<Rightarrow> engine \<Rightarrow> liquidityParams \<Rightarrow> string
     \<Rightarrow> liquidityValidationResult \<times> engine" where
  "validateLiquidityMechanisms nts this p now =
     (let tav = orDefault (liquidityParams.totalAssetValue p) 100000000;
          cl = orDefault (liquidityParams.currentLiquidity p) 15000000;
          rr = orDefault (requiredLiquidityRatio p) 0.20;
          er = orDefault (emergencyReserveRatio p) 0.05;
          requiredLiquidity' = js_mul (Fin tav) (Fin rr);
          emergencyReserve' = js_mul (Fin tav) (Fin er);
          actualLiquidityRatio' = js_div (Fin cl) (Fin tav);
          phiLiquidityScore' = js_mul actualLiquidityRatio' (Fin (config.phiRatio (config this)));
          this' = this\<lparr>liquidityPool := cl\<rparr>;
          validations' =
            \<lparr>sufficientLiquidity = js_ge (Fin cl) requiredLiquidity',
             emergencyReserveMet = js_ge (Fin cl) emergencyReserve',
             optimalRatio = (js_ge actualLiquidityRatio' (Fin rr)
                             \<and> js_le actualLiquidityRatio' (Fin 0.35)),
             phiAligned = js_ge phiLiquidityScore' (Fin 0.30)\<rparr>;
          allValidationsPassed =
            list_all (\<lambda>v. v)
              [sufficientLiquidity validations', emergencyReserveMet validations',
               optimalRatio validations', phiAligned validations']
      in (\<lparr>totalAssetValue = tav,
           currentLiquidity = cl,
           requiredLiquidity = requiredLiquidity',
           emergencyReserve = emergencyReserve',
           actualLiquidityRatio = toFixed nts 2 (js_mul actualLiquidityRatio' (Fin 100)) @ ''%'',
           phiLiquidityScore = toFixed nts 4 phiLiquidityScore',
           validations = validations',
           status = (if allValidationsPassed then ''VALIDATED'' else ''NEEDS_ATTENTION''),
           recommendations =
             generateLiquidityRecommendations nts validations' (Fin cl) requiredLiquidity',
           timestamp = now\<rparr>,
          this'))"

section \<open>generateComprehensiveDCF\<close>

record dcfParams =
  projection :: "projectionParams option"
  liquidity :: "liquidityParams option"

record npvResult =
  npv_value :: jsnum
  formatted :: string
  discountRate :: string
  status :: string

record analysisResult =
  yieldProjection :: yieldProjectionResult
  irrAnalysis :: irrAnalysisResult
  liquidityValidation :: liquidityValidationResult
  npv :: npvResult

record overallAssessmentResult =
  investmentViability :: string
  riskLevel :: string
  phiAlignment :: string

record comprehensiveDCF =
  projectName :: string
  location :: string
  analysis :: analysisResult
  overallAssessment :: overallAssessmentResult
  timestamp :: string

definition noProjectionParams :: projectionParams where
  "noProjectionParams =
     \<lparr>projectionParams.initialInvestment = None, years = None, growthRate = None,
      occupancyRate = None\<rparr>"

definition noLiquidityParams :: liquidityParams where
  "noLiquidityParams =
     \<lparr>liquidityParams.totalAssetValue = None, currentLiquidity = None,
      requiredLiquidityRatio = None, emergencyReserveRatio = None\<rparr>"

text \<open>
  \<open>params.projection?.initialInvestment || 50000000\<close>: the default replaces a missing
  value and also a given 0, the one number of the model that is falsy.
\<close>

definition investmentOrDefault :: "dcfParams \<Rightarrow> real" where
  "investmentOrDefault params =
     (case projection params of
        None \<Rightarrow> 50000000
      | Some p \<Rightarrow>
          (case projectionParams.initialInvestment p of
             None \<Rightarrow> 50000000
           | Some v \<Rightarrow> if v = 0 then 50000000 else v))"

definition dcf_npv :: "engine \<Rightarrow> dcfParams \<Rightarrow> jsnum" where
  "dcf_npv this params =
     js_sub
       (foldl
          (\<lambda>sum cf.
             js_add sum
               (js_div (amount cf)
                  (Math_pow (js_add (Fin 1) (Fin (config.discountRate (config this))))
                     (Fin (of_int (cashFlow.year cf))))))
          (Fin 0) (cashFlows this))
       (Fin (investmentOrDefault params))"

text \<open>
  The three methods are called in order, each with its own reading of the clock, and the
  fourth reading stamps the result. An error of the second call leaves the method at once;
  the engine it returns is the one the first call left behind.
\<close>

definition generateComprehensiveDCF ::
  "(real \<Rightarrow> string) \<Rightarrow> engine \<Rightarrow> dcfParams \<Rightarrow> string \<Rightarrow> string \<Rightarrow> string \<Rightarrow> string
     \<Rightarrow> (error + comprehensiveDCF) \<times> engine" where
  "generateComprehensiveDCF nts this params t1 t2 t3 t4 =
     (let (yieldProjection', this1) =
            calculateYieldProjection this (orDefault (projection params) noProjectionParams) t1
      in case calculatePhiHedgedIRR nts this1 (investmentOrDefault params) t2 of
           Inl e \<Rightarrow> (Inl e, this1)
         | Inr irrAnalysis' \<Rightarrow>
             (let (liquidityValidation', this2) =
                    validateLiquidityMechanisms nts this1
                      (orDefault (liquidity params) noLiquidityParams) t3;
                  npv' = dcf_npv this2 params
              in (Inr
                    \<lparr>projectName = config.projectName (config this2),
                     location = config.location (config this2),
                     analysis =
                       \<lparr>yieldProjection = yieldProjection',
                        irrAnalysis = irrAnalysis',
                        liquidityValidation = liquidityValidation',
                        npv =
                          \<lparr>npv_value = npv',
                           formatted = ''$'' @ toFixed nts 2 (js_div npv' (Fin 1000000)) @ ''M'',
                           discountRate =
                             Number_toString nts
                               (js_mul (Fin (config.discountRate (config this2))) (Fin 100))
                             @ ''%'',
                           status = (if js_gt npv' (Fin 0) then ''POSITIVE'' else ''NEGATIVE'')\<rparr>\<rparr>,
                     overallAssessment =
                       \<lparr>investmentViability =
                          (if js_gt npv' (Fin 0)
                              \<and> liquidityValidationResult.status liquidityValidation' = ''VALIDATED''
                           then ''VIABLE'' else ''REVIEW_NEEDED''),
                        riskLevel =
                          (if js_gt (parseFloat (irrAnalysisResult.phiHedgedIRR irrAnalysis')) (Fin 12)
                           then ''LOW'' else ''MODERATE''),
                        phiAlignment = ''OPTIMIZED''\<rparr>,
                     timestamp = t4\<rparr>,
                  this2)))"

text \<open>\<open>getState\<close>: a snapshot of the configuration, the ledger length and the pool.\<close>

record stateSnapshot =
  state_config :: config
  cashFlowCount :: nat
  state_liquidityPool :: real
  state_timestamp :: string

definition getState :: "engine \<Rightarrow> string \<Rightarrow> stateSnapshot" where
  "getState this now =
     \<lparr>state_config = config this, cashFlowCount = length (cashFlows this),
      state_liquidityPool = liquidityPool this, state_timestamp = now\<rparr>"

section \<open>The quantities of one loop iteration\<close>

text \<open>
  The expressions the loop of \<open>calculateYieldProjection\<close> evaluates in year \<open>y\<close>, named
  so that the ledger and the rows it leaves behind can be written down: the multiplier
  applied to the adjusted yield, the adjusted yield, the amount stored in the ledger and
  the row pushed, given the running total \<open>cum\<close> before the year.
\<close>

definition phiMultiplier :: "real \<Rightarrow> jsnum" where
  "phiMultiplier phi =
     js_add (Fin 1) (js_mul (js_sub (js_div (Fin 1) (Fin phi)) (Fin 1)) (Fin 0.1))"

definition yearAdjusted :: "real \<Rightarrow> real \<Rightarrow> real \<Rightarrow> int \<Rightarrow> jsnum" where
  "yearAdjusted invest g occ y =
     js_mul (js_mul (Fin invest) (Math_pow (js_add (Fin 1) (Fin g)) (Fin (of_int y)))) (Fin occ)"

definition yearAmount :: "real \<Rightarrow> real \<Rightarrow> real \<Rightarrow> real \<Rightarrow> int \<Rightarrow> jsnum" where
  "yearAmount phi invest g occ y = js_mul (yearAdjusted invest g occ y) (phiMultiplier phi)"

definition yearRow :: "real \<Rightarrow> real \<Rightarrow> real \<Rightarrow> real \<Rightarrow> jsnum \<Rightarrow> int \<Rightarrow> yearlyProjection" where
  "yearRow phi invest g occ cum y =
     \<lparr>yearlyProjection.year = y,
      baseYield = js_mul (Fin invest) (Math_pow (js_add (Fin 1) (Fin g)) (Fin (of_int y))),
      adjustedYield = yearAdjusted invest g occ y,
      phiAdjustedYield = yearAmount phi invest g occ y,
      cumulativeYield = js_add cum (yearAmount phi invest g occ y),
      occupancyRate = occ\<rparr>"

text \<open>
  A ledger is finite when every amount is a real number. \<open>js_sum\<close> is the
  \<open>reduce\<close> with \<open>+\<close> from 0 that both the IRR estimate and the NPV use.
\<close>

definition finiteLedger :: "cashFlow list \<Rightarrow> bool" where
  "finiteLedger cfs = list_all (\<lambda>cf. case amount cf of Fin a \<Rightarrow> True | _ \<Rightarrow> False) cfs"

definition js_sum :: "jsnum list \<Rightarrow> jsnum" where
  "js_sum xs = foldl js_add (Fin 0) xs"

text \<open>The real amount of a record of a finite ledger.\<close>

definition amountOf :: "cashFlow \<Rightarrow> real" where
  "amountOf cf = (case amount cf of Fin a \<Rightarrow> a | _ \<Rightarrow> 0)"

text \<open>
  An instance of \<open>Number::toString\<close> for the examples: a whole number below
  \<open>10^21\<close> prints as its decimal digits, with a minus sign when negative. The examples
  print no other number through it.
\<close>

definition sample_nts :: "real \<Rightarrow> string" where
  "sample_nts x = (if x < 0 then ''-'' else []) @ decimal (nat \<lfloor>\<bar>x\<bar>\<rfloor>)"

text \<open>
  Inputs of the examples: the engine with the default configuration, a projection of
  \<open>n\<close> years from 50,000,000 at 15.39% growth and full occupancy, and a liquidity
  check of 25,000,000 against assets of 100,000,000.
\<close>

definition sampleEngine :: engine where
  "sampleEngine = RussellDCFFramework noOverrides"

definition sampleProjection :: "int \<Rightarrow> projectionParams" where
  "sampleProjection n =
     \<lparr>projectionParams.initialInvestment = Some 50000000, years = Some n,
      growthRate = Some 0.1539, occupancyRate = Some 1\<rparr>"

definition sampleLiquidity :: liquidityParams where
  "sampleLiquidity =
     \<lparr>liquidityParams.totalAssetValue = Some 100000000, currentLiquidity = Some 25000000,
      requiredLiquidityRatio = Some 0.20, emergencyReserveRatio = Some 0.05\<rparr>"

definition sampleParams :: dcfParams where
  "sampleParams = \<lparr>projection = Some (sampleProjection 1), liquidity = Some sampleLiquidity\<rparr>"


section \<open>The loop, unfolded\<close>

lemma yieldLoop_step:
  "y \<le> n \<Longrightarrow>
   yieldLoop invest g occ n y (cum, rows, this) =
     yieldLoop invest g occ n (y + 1)
       (js_add cum (yearAmount (config.phiRatio (config this)) invest g occ y),
        rows @ [yearRow (config.phiRatio (config this)) invest g occ cum y],
        this\<lparr>cashFlows := cashFlows this @
          [\<lparr>cashFlow.year = y,
            amount = yearAmount (config.phiRatio (config this)) invest g occ y\<rparr>]\<rparr>)"
  by (subst yieldLoop.simps)
     (simp add: Let_def yearRow_def yearAmount_def yearAdjusted_def phiMultiplier_def)

lemma yieldLoop_stop: "\<not> y \<le> n \<Longrightarrow> yieldLoop invest g occ n y s = s"
  by (cases s) (simp add: yieldLoop.simps)

lemma yieldLoop_engine:
  "snd (snd (yieldLoop invest g occ n y s)) =
     (snd (snd s))\<lparr>cashFlows := cashFlows (snd (snd s)) @
        map (\<lambda>t. \<lparr>cashFlow.year = t,
                    amount = yearAmount (config.phiRatio (config (snd (snd s)))) invest g occ t\<rparr>) [y..n]\<rparr>"
proof (induction "nat (n + 1 - y)" arbitrary: y s)
  case 0
  then have "\<not> y \<le> n" by simp
  then show ?case by (simp add: yieldLoop_stop)
next
  case (Suc k)
  then have le: "y \<le> n" and k: "k = nat (n + 1 - (y + 1))" by simp_all
  obtain cum rows this where s: "s = (cum, rows, this)" by (cases s)
  show ?case
    unfolding s yieldLoop_step[OF le] Suc.hyps(1)[OF k]
    using le by (simp add: upto_rec1[of y n])
qed


lemma phiMultiplier_Fin: "phi \<noteq> 0 \<Longrightarrow> phiMultiplier phi = Fin (1 + (1 / phi - 1) * 0.1)"
  by (simp add: phiMultiplier_def js_sub_def)

lemma Math_pow_year: "1 \<le> y \<Longrightarrow> Math_pow (Fin a) (Fin (of_int y)) = Fin (a ^ nat y)"
  by (simp add: power_int_def)

lemma yearAdjusted_Fin:
  "1 \<le> y \<Longrightarrow> yearAdjusted invest g occ y = Fin (invest * (1 + g) ^ nat y * occ)"
  using Math_pow_year[of y "1 + g"] by (simp add: yearAdjusted_def del: Math_pow.simps)

lemma yearAmount_Fin:
  "phi \<noteq> 0 \<Longrightarrow> 1 \<le> y \<Longrightarrow>
   yearAmount phi invest g occ y = Fin (invest * (1 + g) ^ nat y * occ * (1 + (1 / phi - 1) * 0.1))"
  by (simp add: yearAmount_def yearAdjusted_Fin phiMultiplier_Fin)

lemma foldl_js_add_Fin:
  "(\<forall>x\<in>set xs. h x = Fin (f x)) \<Longrightarrow>
   foldl (\<lambda>s x. js_add s (h x)) (Fin a) xs = Fin (a + sum_list (map f xs))"
  by (induction xs arbitrary: a) (simp_all add: add.assoc)

lemma calculateYieldProjection_engine:
  "snd (calculateYieldProjection this p now) =
     this\<lparr>cashFlows := cashFlows this @
       map (\<lambda>t. \<lparr>cashFlow.year = t,
                   amount = yearAmount (config.phiRatio (config this))
                              (orDefault (projectionParams.initialInvestment p) 50000000)
                              (orDefault (growthRate p) 0.12)
                              (orDefault (projectionParams.occupancyRate p) 0.92) t\<rparr>)
           [1..orDefault (years p) 10]\<rparr>"
  using yieldLoop_engine[of "orDefault (projectionParams.initialInvestment p) 50000000"
      "orDefault (growthRate p) 0.12" "orDefault (projectionParams.occupancyRate p) 0.92"
      "orDefault (years p) 10" 1 "(Fin 0, [], this)"]
  by (simp add: calculateYieldProjection_def Let_def split_beta)


section \<open>The shape of the results\<close>

lemma recommendations_nonempty:
  "generateLiquidityRecommendations nts v current required \<noteq> []"
  by (simp add: generateLiquidityRecommendations_def Let_def)

lemma recommendations_affirmative:
  "(msg_affirmative \<in> set (generateLiquidityRecommendations nts v current required))
     = (sufficientLiquidity v \<and> emergencyReserveMet v \<and> optimalRatio v \<and> phiAligned v)"
  by (simp add: generateLiquidityRecommendations_def Let_def msg_affirmative_def)

lemma dcf_result:
  assumes "generateComprehensiveDCF nts this params t1 t2 t3 t4 = (Inr r, this')"
  defines "this1 \<equiv> snd (calculateYieldProjection this
                           (orDefault (projection params) noProjectionParams) t1)"
  shows "this' = this1\<lparr>liquidityPool :=
                    orDefault (liquidityParams.currentLiquidity
                      (orDefault (liquidity params) noLiquidityParams)) 15000000\<rparr>"
    and "yieldProjection (analysis r) =
           fst (calculateYieldProjection this
                  (orDefault (projection params) noProjectionParams) t1)"
    and "calculatePhiHedgedIRR nts this1 (investmentOrDefault params) t2 =
           Inr (irrAnalysis (analysis r))"
    and "liquidityValidation (analysis r) =
           fst (validateLiquidityMechanisms nts this1
                  (orDefault (liquidity params) noLiquidityParams) t3)"
    and "npv_value (npv (analysis r)) = dcf_npv this' params"
    and "investmentViability (overallAssessment r) =
           (if js_gt (npv_value (npv (analysis r))) (Fin 0)
               \<and> liquidityValidationResult.status (liquidityValidation (analysis r)) = ''VALIDATED''
            then ''VIABLE'' else ''REVIEW_NEEDED'')"
    and "riskLevel (overallAssessment r) =
           (if js_gt (parseFloat (irrAnalysisResult.phiHedgedIRR (irrAnalysis (analysis r))))
                 (Fin 12)
            then ''LOW'' else ''MODERATE'')"
proof -
  obtain irr where irr: "calculatePhiHedgedIRR nts this1 (investmentOrDefault params) t2 = Inr irr"
    using assms(1) unfolding this1_def
    by (cases "calculatePhiHedgedIRR nts
                 (snd (calculateYieldProjection this
                         (orDefault (projection params) noProjectionParams) t1))
                 (investmentOrDefault params) t2")
       (simp_all add: generateComprehensiveDCF_def Let_def split_beta)
  have gen: "generateComprehensiveDCF nts this params t1 t2 t3 t4 =
      (let (liquidityValidation', this2) =
              validateLiquidityMechanisms nts this1
                (orDefault (liquidity params) noLiquidityParams) t3;
           npv' = dcf_npv this2 params
       in (Inr
             \<lparr>projectName = config.projectName (config this2),
              location = config.location (config this2),
              analysis =
                \<lparr>yieldProjection = fst (calculateYieldProjection this
                                          (orDefault (projection params) noProjectionParams) t1),
                 irrAnalysis = irr,
                 liquidityValidation = liquidityValidation',
                 npv =
                   \<lparr>npv_value = npv',
                    formatted = ''$'' @ toFixed nts 2 (js_div npv' (Fin 1000000)) @ ''M'',
                    discountRate =
                      Number_toString nts
                        (js_mul (Fin (config.discountRate (config this2))) (Fin 100))
                      @ ''%'',
                    status = (if js_gt npv' (Fin 0) then ''POSITIVE'' else ''NEGATIVE'')\<rparr>\<rparr>,
              overallAssessment =
                \<lparr>investmentViability =
                   (if js_gt npv' (Fin 0)
                       \<and> liquidityValidationResult.status liquidityValidation' = ''VALIDATED''
                    then ''VIABLE'' else ''REVIEW_NEEDED''),
                 riskLevel =
                   (if js_gt (parseFloat (irrAnalysisResult.phiHedgedIRR irr)) (Fin 12)
                    then ''LOW'' else ''MODERATE''),
                 phiAlignment = ''OPTIMIZED''\<rparr>,
              timestamp = t4\<rparr>,
           this2))" (is "_ = ?rhs")
    using irr unfolding this1_def
    by (simp add: generateComprehensiveDCF_def Let_def split_beta)
  from trans[OF assms(1)[symmetric] gen] have both: "(Inr r, this') = ?rhs" .
  have s2: "snd (validateLiquidityMechanisms nts this1
                   (orDefault (liquidity params) noLiquidityParams) t3) =
            this1\<lparr>liquidityPool :=
                    orDefault (liquidityParams.currentLiquidity
                      (orDefault (liquidity params) noLiquidityParams)) 15000000\<rparr>"
    by (simp add: validateLiquidityMechanisms_def Let_def)
  from both show "this' = this1\<lparr>liquidityPool :=
                    orDefault (liquidityParams.currentLiquidity
                      (orDefault (liquidity params) noLiquidityParams)) 15000000\<rparr>"
    by (simp add: Let_def split_beta s2)
  from both show "yieldProjection (analysis r) =
           fst (calculateYieldProjection this
                  (orDefault (projection params) noProjectionParams) t1)"
    by (simp add: Let_def split_beta)
  from both irr show "calculatePhiHedgedIRR nts this1 (investmentOrDefault params) t2 =
           Inr (irrAnalysis (analysis r))"
    by (simp add: Let_def split_beta)
  from both show "liquidityValidation (analysis r) =
           fst (validateLiquidityMechanisms nts this1
                  (orDefault (liquidity params) noLiquidityParams) t3)"
    by (simp add: Let_def split_beta)
  from both show "npv_value (npv (analysis r)) = dcf_npv this' params"
    by (simp add: Let_def split_beta)
  from both show "investmentViability (overallAssessment r) =
           (if js_gt (npv_value (npv (analysis r))) (Fin 0)
               \<and> liquidityValidationResult.status (liquidityValidation (analysis r)) = ''VALIDATED''
            then ''VIABLE'' else ''REVIEW_NEEDED'')"
    by (simp add: Let_def split_beta)
  from both show "riskLevel (overallAssessment r) =
           (if js_gt (parseFloat (irrAnalysisResult.phiHedgedIRR (irrAnalysis (analysis r))))
                 (Fin 12)
            then ''LOW'' else ''MODERATE'')"
    by (simp add: Let_def split_beta)
qed

text \<open>
  Without an initial investment among the projection parameters, the projection, the IRR
  call and the NPV all work with the default of 50,000,000.
\<close>

lemma absent_investment_agrees:
  assumes "projection params = Some p"
    and "projectionParams.initialInvestment p = None"
    and "generateComprehensiveDCF nts this params t1 t2 t3 t4 = (Inr r, this')"
  shows "yieldProjectionResult.initialInvestment (yieldProjection (analysis r)) = 50000000"
    and "calculatePhiHedgedIRR nts (snd (calculateYieldProjection this p t1)) 50000000 t2 =
           Inr (irrAnalysis (analysis r))"
    and "investmentOrDefault params = 50000000"
proof -
  have p: "orDefault (projection params) noProjectionParams = p"
    using assms(1) by (simp add: orDefault_def)
  show iv: "investmentOrDefault params = 50000000"
    using assms(1,2) by (simp add: investmentOrDefault_def)
  note res = dcf_result[OF assms(3), unfolded p iv]
  show "yieldProjectionResult.initialInvestment (yieldProjection (analysis r)) = 50000000"
    unfolding res(2) using assms(2)
    by (simp add: calculateYieldProjection_def Let_def split_beta orDefault_def)
  show "calculatePhiHedgedIRR nts (snd (calculateYieldProjection this p t1)) 50000000 t2 =
           Inr (irrAnalysis (analysis r))"
    by (rule res(3))
qed

text \<open>The equations that evaluate the model on the examples.\<close>

lemmas sample_eval =
  sampleParams_def sampleProjection_def sampleLiquidity_def sampleEngine_def sample_nts_def
  RussellDCFFramework_def noOverrides_def orDefault_def
  calculateYieldProjection_def yieldLoop.simps Let_def js_sub_def js_gt_def js_ge_def js_le_def
  irr_totalCashFlow_def irr_baseIRR_def irr_phiHedgeFactor_def irr_phiHedgedIRR_def
  calculatePhiHedgedIRR_def fixed_digits_def decimal.simps digit_char_def
  validateLiquidityMechanisms_def generateLiquidityRecommendations_def
  generateComprehensiveDCF_def dcf_npv_def investmentOrDefault_def
  parseFloat_def split_sign_def isWhite_def isDigit_def digits_val_def digit_val_def
  exponent_part_def

lemma sample_run:
  "generateComprehensiveDCF sample_nts sampleEngine sampleParams
     ''2025-01-01T00:00:00.000Z'' ''2025-01-01T00:00:00.001Z''
     ''2025-01-01T00:00:00.002Z'' ''2025-01-01T00:00:00.003Z'' =
   (Inr (projr (fst (generateComprehensiveDCF sample_nts sampleEngine sampleParams
     ''2025-01-01T00:00:00.000Z'' ''2025-01-01T00:00:00.001Z''
     ''2025-01-01T00:00:00.002Z'' ''2025-01-01T00:00:00.003Z''))),
    snd (generateComprehensiveDCF sample_nts sampleEngine sampleParams
     ''2025-01-01T00:00:00.000Z'' ''2025-01-01T00:00:00.001Z''
     ''2025-01-01T00:00:00.002Z'' ''2025-01-01T00:00:00.003Z''))"
  by (simp add: generateComprehensiveDCF_def calculatePhiHedgedIRR_def
      calculateYieldProjection_engine split_beta Let_def sampleParams_def sampleProjection_def
      orDefault_def sampleEngine_def)

section \<open>Finite ledgers\<close>

text \<open>
  The constructor starts with an empty ledger, a projection under a ratio other than 0
  appends real amounts only, and nothing else writes the ledger: the ledgers an engine
  reaches are finite.
\<close>

lemma finiteLedger_amount:
  "finiteLedger cfs \<Longrightarrow> \<forall>cf\<in>set cfs. amount cf = Fin (amountOf cf)"
  by (auto simp: finiteLedger_def amountOf_def list_all_iff split: jsnum.splits)



lemma projection_keeps_finite:
  assumes "config.phiRatio (config this) \<noteq> 0" and "finiteLedger (cashFlows this)"
  shows "finiteLedger (cashFlows (snd (calculateYieldProjection this p now)))"
  using assms
  by (auto simp add: calculateYieldProjection_engine finiteLedger_def list_all_iff yearAmount_Fin)

lemma constructor_finite: "finiteLedger (cashFlows (RussellDCFFramework c))"
  by (simp add: RussellDCFFramework_def finiteLedger_def)

lemma validation_keeps_ledger:
  "cashFlows (snd (validateLiquidityMechanisms nts this p now)) = cashFlows this"
  by (simp add: validateLiquidityMechanisms_def Let_def)

lemma synthesis_keeps_finite:
  assumes "config.phiRatio (config this) \<noteq> 0" and "finiteLedger (cashFlows this)"
  shows "finiteLedger (cashFlows (snd (generateComprehensiveDCF nts this params t1 t2 t3 t4)))"
  using projection_keeps_finite[OF assms]
  by (simp add: generateComprehensiveDCF_def Let_def split_beta validation_keeps_ledger
      split: sum.splits)

lemma dcf_npv_js_sum:
  "dcf_npv this params =
     js_sub
       (js_sum (map (\<lambda>cf. js_div (amount cf)
                       (Math_pow (js_add (Fin 1) (Fin (config.discountRate (config this))))
                          (Fin (of_int (cashFlow.year cf)))))
                  (cashFlows this)))
       (Fin (investmentOrDefault params))"
  by (simp add: dcf_npv_def js_sum_def foldl_map)

lemma dcf_npv_finite:
  assumes "finiteLedger (cashFlows this)"
    and "\<forall>cf\<in>set (cashFlows this). 1 \<le> cashFlow.year cf"
    and "config.discountRate (config this) \<noteq> - 1"
  shows "dcf_npv this params =
     Fin ((\<Sum>cf\<leftarrow>cashFlows this.
             amountOf cf / (1 + config.discountRate (config this)) ^ nat (cashFlow.year cf))
          - investmentOrDefault params)"
proof -
  let ?d = "config.discountRate (config this)"
  have nz: "1 + ?d \<noteq> 0" using assms(3) by simp
  have "\<forall>cf\<in>set (cashFlows this).
          js_div (amount cf) (Math_pow (js_add (Fin 1) (Fin ?d)) (Fin (of_int (cashFlow.year cf))))
          = Fin (amountOf cf / (1 + ?d) ^ nat (cashFlow.year cf))"
  proof
    fix cf assume cf: "cf \<in> set (cashFlows this)"
    then have a: "amount cf = Fin (amountOf cf)" and y: "1 \<le> cashFlow.year cf"
      using finiteLedger_amount[OF assms(1)] assms(2) by blast+
    have "Math_pow (Fin (1 + ?d)) (Fin (of_int (cashFlow.year cf)))
            = Fin ((1 + ?d) ^ nat (cashFlow.year cf))"
      using y by (rule Math_pow_year)
    then show "js_div (amount cf)
                 (Math_pow (js_add (Fin 1) (Fin ?d)) (Fin (of_int (cashFlow.year cf))))
               = Fin (amountOf cf / (1 + ?d) ^ nat (cashFlow.year cf))"
      using nz by (simp add: a del: Math_pow.simps)
  qed
  from foldl_js_add_Fin[OF this, of 0]
  show ?thesis by (simp add: dcf_npv_def js_sub_def)
qed

section \<open>A percentage printed and read back\<close>

text \<open>
  \<open>toFixed(2)\<close> followed by \<open>parseFloat\<close> returns the number rounded to two decimals,
  so the risk level of a synthesis turns on the hedged IRR reaching 0.12005, while the
  recommendation of the IRR analysis turns on its exceeding 0.12.
\<close>

lemma isDigit_digit_char: "d < 10 \<Longrightarrow> isDigit (digit_char d)"
proof -
  assume "d < 10"
  then have "d \<in> {0,1,2,3,4,5,6,7,8,9}" by auto
  then show ?thesis by (auto simp: isDigit_def digit_char_def)
qed

lemma digit_val_digit_char: "d < 10 \<Longrightarrow> digit_val (digit_char d) = d"
proof -
  assume "d < 10"
  then have "d \<in> {0,1,2,3,4,5,6,7,8,9}" by auto
  then show ?thesis by (auto simp: digit_val_def digit_char_def)
qed

lemma digits_val_snoc: "digits_val (xs @ [c]) = 10 * digits_val xs + digit_val c"
  by (simp add: digits_val_def)

lemma decimal_digits: "list_all isDigit (decimal n)"
  by (induction n rule: decimal.induct) (subst decimal.simps, simp add: isDigit_digit_char)

lemma decimal_nonempty: "decimal n \<noteq> []"
  by (subst decimal.simps) simp

lemma digits_val_decimal: "digits_val (decimal n) = n"
proof (induction n rule: decimal.induct)
  case (1 n)
  show ?case
  proof (cases "n < 10")
    case True
    then show ?thesis
      by (subst decimal.simps) (simp add: digits_val_def digit_val_digit_char)
  next
    case False
    then show ?thesis
      using 1 by (subst decimal.simps) (simp add: digits_val_snoc digit_val_digit_char)
  qed
qed

lemma digits_val_append:
  "digits_val (xs @ ys) = digits_val xs * 10 ^ length ys + digits_val ys"
proof (induction ys rule: rev_induct)
  case Nil
  then show ?case by (simp add: digits_val_def)
next
  case (snoc y ys)
  have "digits_val (xs @ ys @ [y]) = 10 * digits_val (xs @ ys) + digit_val y"
    using digits_val_snoc[of "xs @ ys" y] by simp
  then show ?case by (simp add: snoc digits_val_snoc algebra_simps)
qed

lemma digits_val_zeros: "digits_val (replicate k (CHR ''0'') @ xs) = digits_val xs"
proof (induction k arbitrary: xs)
  case 0
  then show ?case by simp
next
  case (Suc k)
  have "replicate (Suc k) (CHR ''0'') @ xs = replicate k (CHR ''0'') @ (CHR ''0'' # xs)"
    by (simp add: replicate_app_Cons_same)
  moreover have "digits_val (CHR ''0'' # xs) = digits_val xs"
    using digits_val_append[of "''0''" xs] by (simp add: digits_val_def digit_val_def)
  ultimately show ?case using Suc[of "CHR ''0'' # xs"] by simp
qed

lemma fixed_digits_2:
  "\<exists>ip fp. fixed_digits 2 n = ip @ ''.'' @ fp \<and> ip \<noteq> [] \<and> list_all isDigit ip
      \<and> list_all isDigit fp \<and> length fp = 2 \<and> digits_val ip * 100 + digits_val fp = n"
proof -
  define m where "m = decimal n"
  define m' where "m' = (if length m \<le> 2 then replicate (3 - length m) (CHR ''0'') @ m else m)"
  have d: "list_all isDigit m'"
    using decimal_digits[of n] by (simp add: m'_def m_def isDigit_def list_all_iff)
  have v: "digits_val m' = n"
    by (simp add: m'_def m_def digits_val_zeros digits_val_decimal)
  have l: "3 \<le> length m'"
    by (simp add: m'_def)
  let ?ip = "take (length m' - 2) m'" and ?fp = "drop (length m' - 2) m'"
  have f: "fixed_digits 2 n = ?ip @ ''.'' @ ?fp"
    by (simp add: fixed_digits_def Let_def m'_def m_def)
  have "digits_val (?ip @ ?fp) = digits_val ?ip * 10 ^ length ?fp + digits_val ?fp"
    by (rule digits_val_append)
  moreover have "length ?fp = 2" using l by simp
  ultimately have s: "digits_val ?ip * 100 + digits_val ?fp = n" using v by simp
  have "?ip \<noteq> []" using l by auto
  moreover have "list_all isDigit ?ip" "list_all isDigit ?fp"
    using d by (auto simp: list_all_iff dest: in_set_takeD in_set_dropD)
  ultimately show ?thesis using f s \<open>length ?fp = 2\<close> by blast
qed

lemma takeWhile_digits:
  "list_all isDigit xs \<Longrightarrow> \<not> isDigit c \<Longrightarrow> takeWhile isDigit (xs @ c # r) = xs"
  by (induction xs) simp_all

lemma dropWhile_digits:
  "list_all isDigit xs \<Longrightarrow> \<not> isDigit c \<Longrightarrow> dropWhile isDigit (xs @ c # r) = c # r"
  by (induction xs) simp_all

lemma parse_fixed:
  assumes "ip \<noteq> []" and "list_all isDigit ip" and "list_all isDigit fp"
  shows "parseFloat (ip @ ''.'' @ fp @ ''%'') =
           Fin (real (digits_val ip) + real (digits_val fp) / 10 ^ length fp)"
    and "parseFloat (''-'' @ ip @ ''.'' @ fp @ ''%'') =
           Fin (- (real (digits_val ip) + real (digits_val fp) / 10 ^ length fp))"
proof -
  obtain c cs where ip: "ip = c # cs" using assms(1) by (cases ip) auto
  have c: "isDigit c" using assms(2) ip by simp
  then have cw: "\<not> isWhite c" and cm: "c \<noteq> CHR ''-''" and cp: "c \<noteq> CHR ''+''"
    and ci: "c \<noteq> CHR ''I''"
    by (auto simp: isDigit_def isWhite_def)
  have nd: "\<not> isDigit (CHR ''.'')" "\<not> isDigit (CHR ''%'')" by (simp_all add: isDigit_def)
  have t1: "takeWhile isDigit (ip @ CHR ''.'' # fp @ ''%'') = ip"
    and d1: "dropWhile isDigit (ip @ CHR ''.'' # fp @ ''%'') = CHR ''.'' # fp @ ''%''"
    using assms(2) nd by (simp_all add: takeWhile_digits dropWhile_digits)
  have t2: "takeWhile isDigit (fp @ ''%'') = fp"
    and d2: "dropWhile isDigit (fp @ ''%'') = ''%''"
    using assms(3) nd takeWhile_digits[of fp "CHR ''%''" "[]"] dropWhile_digits[of fp "CHR ''%''" "[]"]
    by simp_all
  have e: "exponent_part ''%'' = 0" by (simp add: exponent_part_def)
  have inf: "take 8 (ip @ CHR ''.'' # fp @ ''%'') \<noteq> ''Infinity''"
    using ci by (simp add: ip)
  have s: "split_sign (ip @ CHR ''.'' # fp @ ''%'') = (False, ip @ CHR ''.'' # fp @ ''%'')"
    using cm cp by (simp add: split_sign_def ip)
  have w: "dropWhile isWhite (ip @ CHR ''.'' # fp @ ''%'') = ip @ CHR ''.'' # fp @ ''%''"
    using cw by (simp add: ip)
  show "parseFloat (ip @ ''.'' @ fp @ ''%'') =
           Fin (real (digits_val ip) + real (digits_val fp) / 10 ^ length fp)"
    using inf assms(1) by (simp add: parseFloat_def w s t1 d1 t2 d2 e Let_def)
  have s': "split_sign (CHR ''-'' # ip @ CHR ''.'' # fp @ ''%'') = (True, ip @ CHR ''.'' # fp @ ''%'')"
    by (simp add: split_sign_def)
  have w': "dropWhile isWhite (CHR ''-'' # ip @ CHR ''.'' # fp @ ''%'')
              = CHR ''-'' # ip @ CHR ''.'' # fp @ ''%''"
    by (simp add: isWhite_def)
  show "parseFloat (''-'' @ ip @ ''.'' @ fp @ ''%'') =
           Fin (- (real (digits_val ip) + real (digits_val fp) / 10 ^ length fp))"
    using inf assms(1) by (simp add: parseFloat_def w'[simplified] s' t1 d1 t2 d2 e Let_def isWhite_def)
qed

lemma parse_toFixed_2:
  assumes "\<bar>x\<bar> < 10 ^ 21"
  shows "parseFloat (toFixed nts 2 (Fin x) @ ''%'') =
           Fin ((if x < 0 then - 1 else 1) * real (nat \<lfloor>\<bar>x\<bar> * 100 + 1 / 2\<rfloor>) / 100)"
proof -
  let ?n = "nat \<lfloor>\<bar>x\<bar> * 100 + 1 / 2\<rfloor>"
  from fixed_digits_2[of ?n] obtain ip fp where
    f: "fixed_digits 2 ?n = ip @ ''.'' @ fp" and ip: "ip \<noteq> []" "list_all isDigit ip"
    and fp: "list_all isDigit fp" "length fp = 2"
    and v: "digits_val ip * 100 + digits_val fp = ?n"
    by blast
  have r: "real (digits_val ip) + real (digits_val fp) / 10 ^ length fp = real ?n / 100"
    unfolding v[symmetric] fp(2) by (simp add: field_simps)
  show ?thesis
  proof (cases "x < 0")
    case True
    have t0: "toFixed nts 2 (Fin x) = ''-'' @ fixed_digits 2 ?n"
      using True assms by (simp add: Let_def)
    have tf: "toFixed nts 2 (Fin x) @ ''%'' = ''-'' @ ip @ ''.'' @ fp @ ''%''"
      unfolding t0 f by simp
    show ?thesis
      unfolding tf parse_fixed(2)[OF ip fp(1)] r using True by simp
  next
    case False
    have t0: "toFixed nts 2 (Fin x) = fixed_digits 2 ?n"
      using False assms by (simp add: Let_def)
    have tf: "toFixed nts 2 (Fin x) @ ''%'' = ip @ ''.'' @ fp @ ''%''"
      unfolding t0 f by simp
    show ?thesis
      unfolding tf parse_fixed(1)[OF ip fp(1)] r using False by simp
  qed
qed

text \<open>The value read back exceeds 12 exactly from 12.005 on.\<close>

lemma reparsed_exceeds_12:
  assumes "\<bar>x\<bar> < 10 ^ 21"
  shows "js_gt (parseFloat (toFixed nts 2 (Fin x) @ ''%'')) (Fin 12) = (12.005 \<le> x)"
proof (cases "x < 0")
  case True
  define n where "n = nat \<lfloor>\<bar>x\<bar> * 100 + 1 / 2\<rfloor>"
  have "\<not> 12 < - 1 * real n / 100" by simp
  then show ?thesis
    unfolding parse_toFixed_2[OF assms] n_def[symmetric] using True by (simp add: js_gt_def)
next
  case False
  then have x: "\<bar>x\<bar> = x" by simp
  have "(1200 < nat \<lfloor>x * 100 + 1 / 2\<rfloor>) = (1201 \<le> \<lfloor>x * 100 + 1 / 2\<rfloor>)" by linarith
  also have "\<dots> = (1201 \<le> x * 100 + 1 / 2)" by (simp add: le_floor_iff)
  also have "\<dots> = (12.005 \<le> x)" by (simp add: field_simps)
  finally have "(12 < real (nat \<lfloor>x * 100 + 1 / 2\<rfloor>) / 100) = (12.005 \<le> x)"
    by (simp add: field_simps)
  then show ?thesis
    unfolding parse_toFixed_2[OF assms] using False by (simp add: js_gt_def x)
qed

lemma irr_fields:
  assumes "calculatePhiHedgedIRR nts this invest now = Inr a"
  shows "irrAnalysisResult.phiHedgedIRR a =
           toFixed nts 2 (js_mul (irr_phiHedgedIRR this invest) (Fin 100)) @ ''%''"
    and "recommendation a =
           (if js_gt (irr_phiHedgedIRR this invest) (Fin 0.12) then ''Strong Buy''
            else if js_gt (irr_phiHedgedIRR this invest) (Fin 0.08) then ''Buy'' else ''Hold'')"
  using assms
  by (auto simp add: calculatePhiHedgedIRR_def Let_def simp del: toFixed.simps
      split: if_splits)

lemma risk_level_threshold:
  assumes "generateComprehensiveDCF nts this params t1 t2 t3 t4 = (Inr r, this')"
    and "irr_phiHedgedIRR
           (snd (calculateYieldProjection this
                   (orDefault (projection params) noProjectionParams) t1))
           (investmentOrDefault params) = Fin h"
    and "\<bar>h * 100\<bar> < 10 ^ 21"
  shows "(riskLevel (overallAssessment r) = ''LOW'') = (0.12005 \<le> h)"
    and "(recommendation (irrAnalysis (analysis r)) = ''Strong Buy'') = (0.12 < h)"
proof -
  let ?this1 = "snd (calculateYieldProjection this
                   (orDefault (projection params) noProjectionParams) t1)"
  note res = dcf_result[OF assms(1)]
  have s: "irrAnalysisResult.phiHedgedIRR (irrAnalysis (analysis r)) =
             toFixed nts 2 (Fin (h * 100)) @ ''%''"
    unfolding irr_fields(1)[OF res(3)] assms(2) by (simp del: toFixed.simps)
  have c: "recommendation (irrAnalysis (analysis r)) =
             (if 0.12 < h then ''Strong Buy'' else if 0.08 < h then ''Buy'' else ''Hold'')"
    unfolding irr_fields(2)[OF res(3)] assms(2) by (simp add: js_gt_def)
  have "(riskLevel (overallAssessment r) = ''LOW'') =
          js_gt (parseFloat (toFixed nts 2 (Fin (h * 100)) @ ''%'')) (Fin 12)"
    unfolding res(7) s by simp
  also have "\<dots> = (12.005 \<le> h * 100)"
    by (rule reparsed_exceeds_12[OF assms(3)])
  also have "\<dots> = (0.12005 \<le> h)" by (simp add: field_simps)
  finally show "(riskLevel (overallAssessment r) = ''LOW'') = (0.12005 \<le> h)" .
  show "(recommendation (irrAnalysis (analysis r)) = ''Strong Buy'') = (0.12 < h)"
    unfolding c by simp
qed

section \<open>Ledger growth\<close>

text \<open>
  C7. A projection over a positive number of years \<open>N\<close> appends exactly \<open>N\<close> records,
  for the years 1 to \<open>N\<close>, after the records the ledger already holds, which stay as they
  are. On an engine with an empty ledger, a projection over 5 years followed by one over
  3 years leaves a ledger of length 8.
\<close>

theorem ledger_growth:
  "(0 < N \<and> years p = Some N \<longrightarrow>
      (\<exists>new. cashFlows (snd (calculateYieldProjection this p now)) = cashFlows this @ new
            \<and> length new = nat N \<and> map cashFlow.year new = [1..N]))
   \<and> (cashFlows this = [] \<and> years p5 = Some 5 \<and> years p3 = Some 3 \<longrightarrow>
        length (cashFlows (snd (calculateYieldProjection
                  (snd (calculateYieldProjection this p5 now5)) p3 now3))) = 8)"
  by (simp add: calculateYieldProjection_engine orDefault_def comp_def)

theorem ledger_growth_witness:
  "(\<exists>new. cashFlows (snd (calculateYieldProjection sampleEngine (sampleProjection 5)
              ''2025-01-01T00:00:00.000Z'')) = cashFlows sampleEngine @ new
            \<and> length new = 5 \<and> map cashFlow.year new = [1, 2, 3, 4, 5])
   \<and> length (cashFlows (snd (calculateYieldProjection
                  (snd (calculateYieldProjection sampleEngine (sampleProjection 5)
                     ''2025-01-01T00:00:00.000Z''))
                  (sampleProjection 3) ''2025-01-01T00:00:01.000Z''))) = 8"
  using ledger_growth[of 5 "sampleProjection 5" sampleEngine
      "''2025-01-01T00:00:00.000Z''" "sampleProjection 5" "sampleProjection 3"
      "''2025-01-01T00:00:00.000Z''" "''2025-01-01T00:00:01.000Z''"]
  by (simp add: sampleProjection_def sampleEngine_def RussellDCFFramework_def upto_rec1)

section \<open>The phi adjustment of a year\<close>



section \<open>The precondition of the IRR estimate\<close>

text \<open>
  C4. \<open>calculatePhiHedgedIRR\<close> raises its error, whose message says that no cash flows
  are available and that the projection has to run first, exactly when the ledger is
  empty, and it raises no other error. An engine fresh from the constructor always fails
  this way; with a non-empty ledger the method returns a result.
\<close>

theorem irr_precondition:
  "(calculatePhiHedgedIRR nts this invest now =
      Inl (Error ''No cash flows available. Run calculateYieldProjection first.''))
     = (cashFlows this = [])
   \<and> (\<exists>e. calculatePhiHedgedIRR nts this invest now = Inl e) = (cashFlows this = [])
   \<and> calculatePhiHedgedIRR nts (RussellDCFFramework c) invest now =
       Inl (Error ''No cash flows available. Run calculateYieldProjection first.'')"
  by (simp add: calculatePhiHedgedIRR_def RussellDCFFramework_def Let_def)

theorem irr_precondition_witness:
  "calculatePhiHedgedIRR sample_nts sampleEngine 50000000 ''2025-01-01T00:00:00.000Z'' =
     Inl (Error ''No cash flows available. Run calculateYieldProjection first.'')
   \<and> cashFlows (snd (calculateYieldProjection sampleEngine (sampleProjection 1)
                       ''2025-01-01T00:00:00.000Z'')) \<noteq> []
   \<and> \<not> (\<exists>e. calculatePhiHedgedIRR sample_nts
               (snd (calculateYieldProjection sampleEngine (sampleProjection 1)
                       ''2025-01-01T00:00:00.000Z''))
               50000000 ''2025-01-01T00:00:01.000Z'' = Inl e)"
  using irr_precondition[of sample_nts sampleEngine 50000000 "''2025-01-01T00:00:00.000Z''"
      noOverrides]
    irr_precondition[of sample_nts
      "snd (calculateYieldProjection sampleEngine (sampleProjection 1)
              ''2025-01-01T00:00:00.000Z'')"
      50000000 "''2025-01-01T00:00:01.000Z''" noOverrides]
  by (simp add: sampleEngine_def calculateYieldProjection_engine sampleProjection_def
      orDefault_def)

section \<open>Liquidity status and recommendations\<close>

text \<open>
  C5. For every call of \<open>validateLiquidityMechanisms\<close>, with a total asset value of
  zero or not, the status is VALIDATED exactly when the four checks (sufficientLiquidity,
  emergencyReserveMet, optimalRatio, phiAligned) all hold and NEEDS_ATTENTION otherwise;
  the list of recommendations is never empty, and it contains the affirmative message
  exactly when the status is VALIDATED.
\<close>

theorem liquidity_status:
  "(let r = fst (validateLiquidityMechanisms nts this p now);
        ok = (sufficientLiquidity (validations r) \<and> emergencyReserveMet (validations r)
              \<and> optimalRatio (validations r) \<and> phiAligned (validations r))
    in (liquidityValidationResult.status r = ''VALIDATED'') = ok
       \<and> (liquidityValidationResult.status r = ''NEEDS_ATTENTION'') = (\<not> ok)
       \<and> recommendations r \<noteq> []
       \<and> (msg_affirmative \<in> set (recommendations r))
           = (liquidityValidationResult.status r = ''VALIDATED''))"
  by (simp add: validateLiquidityMechanisms_def Let_def recommendations_nonempty
      recommendations_affirmative)

theorem liquidity_status_witness:
  "(let r = fst (validateLiquidityMechanisms sample_nts sampleEngine sampleLiquidity
                   ''2025-01-01T00:00:00.000Z'')
    in orDefault (liquidityParams.totalAssetValue sampleLiquidity) 100000000 \<noteq> 0
       \<and> liquidityValidationResult.status r = ''VALIDATED''
       \<and> sufficientLiquidity (validations r) \<and> emergencyReserveMet (validations r)
       \<and> optimalRatio (validations r) \<and> phiAligned (validations r)
       \<and> recommendations r = [msg_affirmative])"
  using liquidity_status[of sample_nts sampleEngine sampleLiquidity "''2025-01-01T00:00:00.000Z''"]
  by (simp add: validateLiquidityMechanisms_def Let_def sampleLiquidity_def sampleEngine_def
      RussellDCFFramework_def noOverrides_def orDefault_def js_ge_def js_le_def
      generateLiquidityRecommendations_def)

section \<open>The viability verdict\<close>

text \<open>
  C2. In every synthesis that returns, investmentViability is VIABLE exactly when the
  returned NPV is greater than 0 and the returned liquidity status is VALIDATED, and it
  is REVIEW_NEEDED exactly when one of the two fails.
\<close>

theorem viability_verdict:
  assumes "generateComprehensiveDCF nts this params t1 t2 t3 t4 = (Inr r, this')"
  shows "(investmentViability (overallAssessment r) = ''VIABLE'')
           = (js_gt (npv_value (npv (analysis r))) (Fin 0)
              \<and> liquidityValidationResult.status (liquidityValidation (analysis r)) = ''VALIDATED'')
         \<and> (investmentViability (overallAssessment r) = ''REVIEW_NEEDED'')
           = (\<not> (js_gt (npv_value (npv (analysis r))) (Fin 0)
                 \<and> liquidityValidationResult.status (liquidityValidation (analysis r)) = ''VALIDATED''))"
  unfolding dcf_result(6)[OF assms] by simp

theorem viability_verdict_witness:
  "(let r = projr (fst (generateComprehensiveDCF sample_nts sampleEngine sampleParams
     ''2025-01-01T00:00:00.000Z'' ''2025-01-01T00:00:00.001Z''
     ''2025-01-01T00:00:00.002Z'' ''2025-01-01T00:00:00.003Z''))
    in investmentViability (overallAssessment r) = ''VIABLE''
       \<and> js_gt (npv_value (npv (analysis r))) (Fin 0)
       \<and> liquidityValidationResult.status (liquidityValidation (analysis r)) = ''VALIDATED'')"
  using viability_verdict[OF sample_run]
  by (simp add: sample_eval)

section \<open>Determinism\<close>

text \<open>
  C6, as amended. Two calls of \<open>calculateYieldProjection\<close>, of
  \<open>calculatePhiHedgedIRR\<close> or of \<open>validateLiquidityMechanisms\<close> on the same engine
  with the same arguments differ in nothing but the timestamp of the result, which is the
  reading of the wall clock at the call: the result of a call at reading \<open>t'\<close> is the
  result of the call at reading \<open>t\<close> with its timestamp replaced, the engine left
  behind is the same, and so is the error raised.
\<close>

theorem determinism_up_to_timestamp:
  "calculateYieldProjection this p t' =
     (case calculateYieldProjection this p t of
        (r, s) \<Rightarrow> (r\<lparr>yieldProjectionResult.timestamp := t'\<rparr>, s))
   \<and> calculatePhiHedgedIRR nts this invest t' =
     (case calculatePhiHedgedIRR nts this invest t of
        Inl e \<Rightarrow> Inl e
      | Inr r \<Rightarrow> Inr (r\<lparr>irrAnalysisResult.timestamp := t'\<rparr>))
   \<and> validateLiquidityMechanisms nts this q t' =
     (case validateLiquidityMechanisms nts this q t of
        (r, s) \<Rightarrow> (r\<lparr>liquidityValidationResult.timestamp := t'\<rparr>, s))"
  by (simp add: calculateYieldProjection_def calculatePhiHedgedIRR_def
      validateLiquidityMechanisms_def Let_def split_beta)

theorem determinism_up_to_timestamp_witness:
  "calculateYieldProjection sampleEngine (sampleProjection 1) ''2025-01-01T00:00:00.001Z'' =
     (case calculateYieldProjection sampleEngine (sampleProjection 1) ''2025-01-01T00:00:00.000Z'' of
        (r, s) \<Rightarrow> (r\<lparr>yieldProjectionResult.timestamp := ''2025-01-01T00:00:00.001Z''\<rparr>, s))
   \<and> calculatePhiHedgedIRR sample_nts sampleEngine 50000000 ''2025-01-01T00:00:00.001Z'' =
       calculatePhiHedgedIRR sample_nts sampleEngine 50000000 ''2025-01-01T00:00:00.000Z''
   \<and> validateLiquidityMechanisms sample_nts sampleEngine sampleLiquidity ''2025-01-01T00:00:00.001Z'' =
     (case validateLiquidityMechanisms sample_nts sampleEngine sampleLiquidity
             ''2025-01-01T00:00:00.000Z'' of
        (r, s) \<Rightarrow> (r\<lparr>liquidityValidationResult.timestamp := ''2025-01-01T00:00:00.001Z''\<rparr>, s))"
  using determinism_up_to_timestamp[of sampleEngine "sampleProjection 1"
      "''2025-01-01T00:00:00.001Z''" "''2025-01-01T00:00:00.000Z''" sample_nts 50000000
      sampleLiquidity]
  by (simp add: calculatePhiHedgedIRR_def sampleEngine_def RussellDCFFramework_def)

text \<open>
  C6, as stated, fails: the same projection on the same engine, read off the clock one
  millisecond apart, gives two result objects that are not equal (their timestamps differ).
\<close>

theorem timestamps_differ:
  "fst (calculateYieldProjection sampleEngine (sampleProjection 1) ''2025-01-01T00:00:00.000Z'')
     \<noteq> fst (calculateYieldProjection sampleEngine (sampleProjection 1) ''2025-01-01T00:00:00.001Z'')"
  by (simp add: calculateYieldProjection_def Let_def split_beta)

section \<open>The risk level\<close>

text \<open>
  C1. The claim asks for riskLevel LOW exactly when the hedged IRR exceeds 0.12. The
  synthesis compares the value parsed back from the percentage string, which is rounded
  to two decimals, with 12. On the default engine, one year at 15.39% growth and full
  occupancy from 50,000,000 gives a hedged IRR of about 0.120006, above 0.12: the IRR
  analysis recommends Strong Buy, its percentage string is 12.00%, and the risk level
  comes out MODERATE.
\<close>

theorem risk_level_rounds:
  "(case fst (generateComprehensiveDCF sample_nts sampleEngine sampleParams
       ''2025-01-01T00:00:00.000Z'' ''2025-01-01T00:00:00.001Z''
       ''2025-01-01T00:00:00.002Z'' ''2025-01-01T00:00:00.003Z'') of
      Inl e \<Rightarrow> False
    | Inr r \<Rightarrow>
        js_gt (irr_phiHedgedIRR
                 (snd (calculateYieldProjection sampleEngine (sampleProjection 1)
                         ''2025-01-01T00:00:00.000Z''))
                 50000000)
          (Fin 0.12)
        \<and> recommendation (irrAnalysis (analysis r)) = ''Strong Buy''
        \<and> irrAnalysisResult.phiHedgedIRR (irrAnalysis (analysis r)) = ''12.00%''
        \<and> riskLevel (overallAssessment r) = ''MODERATE'')"
  by (simp add: sample_eval)

section \<open>Hedge monotonicity\<close>



section \<open>The net present value on a fresh engine\<close>

text \<open>
  C3. A synthesis that returns, on an engine with an empty ledger and with a given
  initial investment greater than 0, leaves in the ledger exactly the records of its own
  projection, and the NPV it returns is the sum over these records of the amount divided
  by \<open>(1 + discountRate)\<close> to the power of the year, minus the initial investment: in
  the arithmetic of the program in every case, and as a sum of real numbers when the
  ratio is not 0 and the discount rate is not -1.
\<close>

theorem npv_fresh_engine:
  assumes "cashFlows this = []"
    and "projection params = Some p"
    and "projectionParams.initialInvestment p = Some invest"
    and "0 < invest"
    and "generateComprehensiveDCF nts this params t1 t2 t3 t4 = (Inr r, this')"
  shows "cashFlows this' =
           map (\<lambda>t. \<lparr>cashFlow.year = t,
                       amount = yearAmount (config.phiRatio (config this)) invest
                                  (orDefault (growthRate p) 0.12)
                                  (orDefault (projectionParams.occupancyRate p) 0.92) t\<rparr>)
             [1..orDefault (years p) 10]
         \<and> npv_value (npv (analysis r)) =
             js_sub
               (js_sum (map (\<lambda>cf. js_div (amount cf)
                               (Math_pow (js_add (Fin 1) (Fin (config.discountRate (config this))))
                                  (Fin (of_int (cashFlow.year cf)))))
                          (cashFlows this')))
               (Fin invest)
         \<and> (config.phiRatio (config this) \<noteq> 0 \<and> config.discountRate (config this) \<noteq> - 1 \<longrightarrow>
               finiteLedger (cashFlows this')
             \<and> npv_value (npv (analysis r)) =
                 Fin ((\<Sum>cf\<leftarrow>cashFlows this'.
                         amountOf cf
                           / (1 + config.discountRate (config this)) ^ nat (cashFlow.year cf))
                      - invest))"
proof -
  let ?this1 = "snd (calculateYieldProjection this p t1)"
  have p: "orDefault (projection params) noProjectionParams = p"
    using assms(2) by (simp add: orDefault_def)
  have iv: "investmentOrDefault params = invest"
    using assms(2,3,4) by (simp add: investmentOrDefault_def)
  note res = dcf_result[OF assms(5), unfolded p]
  have cfg: "config this' = config this"
    by (simp add: res(1) calculateYieldProjection_engine)
  have led: "cashFlows this' =
           map (\<lambda>t. \<lparr>cashFlow.year = t,
                       amount = yearAmount (config.phiRatio (config this)) invest
                                  (orDefault (growthRate p) 0.12)
                                  (orDefault (projectionParams.occupancyRate p) 0.92) t\<rparr>)
             [1..orDefault (years p) 10]"
    using assms(1,3) by (simp add: res(1) calculateYieldProjection_engine orDefault_def)
  have js: "npv_value (npv (analysis r)) =
             js_sub
               (js_sum (map (\<lambda>cf. js_div (amount cf)
                               (Math_pow (js_add (Fin 1) (Fin (config.discountRate (config this))))
                                  (Fin (of_int (cashFlow.year cf)))))
                          (cashFlows this')))
               (Fin invest)"
    unfolding res(5) dcf_npv_js_sum iv cfg ..
  have fin: "finiteLedger (cashFlows this')
             \<and> npv_value (npv (analysis r)) =
                 Fin ((\<Sum>cf\<leftarrow>cashFlows this'.
                         amountOf cf
                           / (1 + config.discountRate (config this)) ^ nat (cashFlow.year cf))
                      - invest)"
    if phi: "config.phiRatio (config this) \<noteq> 0" and d: "config.discountRate (config this) \<noteq> - 1"
  proof -
    have f: "finiteLedger (cashFlows this')"
      unfolding led using phi by (auto simp add: finiteLedger_def list_all_iff yearAmount_Fin)
    have y: "\<forall>cf\<in>set (cashFlows this'). 1 \<le> cashFlow.year cf"
      unfolding led by auto
    from dcf_npv_finite[OF f y, of params] d
    show ?thesis unfolding res(5) iv cfg using f by simp
  qed
  from led js fin show ?thesis by blast
qed

theorem npv_fresh_engine_witness:
  "cashFlows sampleEngine = []
   \<and> projection sampleParams = Some (sampleProjection 1)
   \<and> projectionParams.initialInvestment (sampleProjection 1) = Some 50000000
   \<and> (0::real) < 50000000
   \<and> config.phiRatio (config sampleEngine) \<noteq> 0
   \<and> config.discountRate (config sampleEngine) \<noteq> - 1
   \<and> finiteLedger (cashFlows (snd (generateComprehensiveDCF sample_nts sampleEngine sampleParams
        ''2025-01-01T00:00:00.000Z'' ''2025-01-01T00:00:00.001Z''
        ''2025-01-01T00:00:00.002Z'' ''2025-01-01T00:00:00.003Z'')))
   \<and> npv_value (npv (analysis (projr (fst (generateComprehensiveDCF sample_nts sampleEngine
        sampleParams ''2025-01-01T00:00:00.000Z'' ''2025-01-01T00:00:00.001Z''
        ''2025-01-01T00:00:00.002Z'' ''2025-01-01T00:00:00.003Z''))))) =
       Fin ((\<Sum>cf\<leftarrow>cashFlows (snd (generateComprehensiveDCF sample_nts sampleEngine sampleParams
                ''2025-01-01T00:00:00.000Z'' ''2025-01-01T00:00:00.001Z''
                ''2025-01-01T00:00:00.002Z'' ''2025-01-01T00:00:00.003Z'')).
               amountOf cf
                 / (1 + config.discountRate (config sampleEngine)) ^ nat (cashFlow.year cf))
            - 50000000)
   \<and> npv_value (npv (analysis (projr (fst (generateComprehensiveDCF sample_nts sampleEngine
        sampleParams ''2025-01-01T00:00:00.000Z'' ''2025-01-01T00:00:00.001Z''
        ''2025-01-01T00:00:00.002Z'' ''2025-01-01T00:00:00.003Z''))))) =
       Fin (12064442451691714112500 / 8737383539249433)"
proof -
  have h1: "cashFlows sampleEngine = []"
    by (simp add: sampleEngine_def RussellDCFFramework_def)
  have h2: "projection sampleParams = Some (sampleProjection 1)"
    by (simp add: sampleParams_def)
  have h3: "projectionParams.initialInvestment (sampleProjection 1) = Some 50000000"
    by (simp add: sampleProjection_def)
  have h4: "(0::real) < 50000000" by simp
  have h5: "config.phiRatio (config sampleEngine) \<noteq> 0"
    and h6: "config.discountRate (config sampleEngine) \<noteq> - 1"
    by (simp_all add: sampleEngine_def RussellDCFFramework_def noOverrides_def orDefault_def)
  have v: "npv_value (npv (analysis (projr (fst (generateComprehensiveDCF sample_nts sampleEngine
        sampleParams ''2025-01-01T00:00:00.000Z'' ''2025-01-01T00:00:00.001Z''
        ''2025-01-01T00:00:00.002Z'' ''2025-01-01T00:00:00.003Z''))))) =
       Fin (12064442451691714112500 / 8737383539249433)"
    by (simp add: sample_eval)
  from npv_fresh_engine[OF h1 h2 h3 h4 sample_run] h1 h2 h3 h4 h5 h6 v
  show ?thesis by blast
qed

section \<open>An initial investment of zero\<close>



end
